theory Spec2Isabelle
  imports Complex_Main "HOL-Library.Sublist" "HOL-Library.List_Lexorder" "HOL-Library.Char_ord"
begin

section \<open>Configuration (config/settings.py)\<close>

definition MASKED_ENTITIES :: "string list" where
  "MASKED_ENTITIES =
     [''PERSON'', ''GENDER'', ''AGE'', ''DATE'', ''ADDRESS'', ''ETHNICITY'']"

definition LLM_SYSTEM_PROMPT :: string where
  "LLM_SYSTEM_PROMPT =
     ''You are an expert Talent Analyst. Generate a professional match rationale. '' @
     ''Your response MUST only be based on the provided skills and experience. '' @
     ''DO NOT mention names, age, or any protected characteristics.''"

section \<open>Documents as the extraction pipeline sees them (pipelines/1\_extraction.py)\<close>

text \<open>
  The pipeline works on a spaCy \<open>Doc\<close>. Of a token it reads the verbatim text
  (\<open>token.text\<close>, here \<open>orth\<close>) and it writes the attributes \<open>LEMMA\<close> and \<open>TAG\<close>;
  the trailing whitespace of a token is what \<open>doc.text\<close> puts between two tokens.
\<close>

record token =
  orth :: string
  whitespace :: string
  tok_lemma :: string
  tok_tag :: string

text \<open>
  \<open>doc.ents\<close> is a sequence of labelled, non-empty spans of tokens that never overlap.
  A document is therefore a sequence of pieces: a token outside every entity, or an
  entity with its label, its first token and its other tokens.
\<close>

datatype piece = Tok token | Ent string token "token list"

type_synonym doc = "piece list"

fun piece_tokens :: "piece \<Rightarrow> token list" where
  "piece_tokens (Tok t) = [t]"
| "piece_tokens (Ent l t ts) = t # ts"

definition doc_tokens :: "doc \<Rightarrow> token list" where
  "doc_tokens d = concat (map piece_tokens d)"

definition text_with_ws :: "token \<Rightarrow> string" where
  "text_with_ws t = orth t @ whitespace t"

definition tokens_text :: "token list \<Rightarrow> string" where
  "tokens_text ts = concat (map text_with_ws ts)"

text \<open>\<open>doc.text\<close>: every token's text followed by its trailing whitespace.\<close>

definition doc_text :: "doc \<Rightarrow> string" where
  "doc_text d = tokens_text (doc_tokens d)"

text \<open>
  \<open>span.text\<close> of the non-empty span \<open>t # ts\<close>: the text of the span without the
  trailing whitespace of its last token.
\<close>

fun span_text :: "token \<Rightarrow> token list \<Rightarrow> string" where
  "span_text t [] = orth t"
| "span_text t (u # us) = text_with_ws t @ span_text u us"

fun span_whitespace :: "token \<Rightarrow> token list \<Rightarrow> string" where
  "span_whitespace t [] = whitespace t"
| "span_whitespace t (u # us) = span_whitespace u us"

text \<open>
  \<open>retokenizer.merge(span, attrs={"LEMMA": l, "TAG": g})\<close>: the span becomes one token
  whose text is the span's text and whose trailing whitespace is that of the span's last
  token; the attributes given are set on it. The merged token is still the entity.
\<close>

definition merge :: "string \<Rightarrow> string \<Rightarrow> token \<Rightarrow> token list \<Rightarrow> token" where
  "merge l g t ts =
     \<lparr>orth = span_text t ts, whitespace = span_whitespace t ts, tok_lemma = l, tok_tag = g\<rparr>"

text \<open>
  \<^verbatim>\<open>
  def apply_guardrails(doc):
      with doc.retokenize() as retokenizer:
          for ent in doc.ents:
              if ent.label_ in MASKED_ENTITIES:
                  retokenizer.merge(ent, attrs={"LEMMA": "[MASKED_ENTITY]", "TAG": "XX"})
      return doc
  \<close>
\<close>

fun guard_piece :: "piece \<Rightarrow> piece" where
  "guard_piece (Tok t) = Tok t"
| "guard_piece (Ent l t ts) =
     (if l \<in> set MASKED_ENTITIES then Ent l (merge ''[MASKED_ENTITY]'' ''XX'' t ts) []
      else Ent l t ts)"

definition apply_guardrails :: "doc \<Rightarrow> doc" where
  "apply_guardrails d = map guard_piece d"

subsection \<open>Case folding\<close>

text \<open>\<open>str.lower()\<close> on the ASCII letters; every other character is left as it is.\<close>

definition lower_char :: "char \<Rightarrow> char" where
  "lower_char c =
     (case map_of (zip ''ABCDEFGHIJKLMNOPQRSTUVWXYZ'' ''abcdefghijklmnopqrstuvwxyz'') c of
        None \<Rightarrow> c
      | Some c' \<Rightarrow> c')"

definition lower :: "string \<Rightarrow> string" where
  "lower s = map lower_char s"

subsection \<open>The phrase matcher\<close>

text \<open>
  \<open>PhraseMatcher(nlp.vocab)\<close> is built with its default attribute, \<open>ORTH\<close>: a pattern
  matches at a position when the verbatim texts of its tokens are the verbatim texts of
  the document's tokens from that position on. A pattern of no tokens is skipped when
  the patterns are added. A match is the pair of its start and end token positions.
\<close>

definition matches_at :: "string list \<Rightarrow> token list \<Rightarrow> nat \<Rightarrow> bool" where
  "matches_at pat toks i = (pat \<noteq> [] \<and> prefix pat (map orth (drop i toks)))"

definition PhraseMatcher :: "string list list \<Rightarrow> token list \<Rightarrow> (nat \<times> nat) list" where
  "PhraseMatcher pats toks =
     concat (map (\<lambda>i. map (\<lambda>pat. (i, i + length pat))
                         (filter (\<lambda>pat. matches_at pat toks i) pats))
                 [0..<length toks])"

text \<open>\<open>doc[start:end].text\<close>; an empty slice has the empty text.\<close>

definition slice_text :: "token list \<Rightarrow> nat \<Rightarrow> nat \<Rightarrow> string" where
  "slice_text toks start end' =
     (case take (end' - start) (drop start toks) of
        [] \<Rightarrow> []
      | t # ts \<Rightarrow> span_text t ts)"

subsection \<open>extract\_entities\<close>

text \<open>
  The skills of a record are \<open>list(set(...))\<close>: a list without duplicates whose order is
  whatever the set's iteration gives. The model keeps the set.
\<close>

record extracted =
  text_clean :: string
  skills :: "string set"
  roles :: "string list"
  experience_text :: "string list"

text \<open>
  The language pipeline \<open>nlp\<close> (tokenizer and entity recogniser) and the tokenizer alone,
  \<open>nlp.make_doc\<close>, are loaded models; the vocabulary \<open>ESCO_SKILLS\<close> is read from a file.
  All three are parameters.
\<close>

definition extract_entities ::
  "(string \<Rightarrow> doc) \<Rightarrow> (string \<Rightarrow> token list) \<Rightarrow> string list \<Rightarrow> string \<Rightarrow> extracted" where
  "extract_entities nlp make_doc ESCO_SKILLS txt =
     (let d = apply_guardrails (nlp txt);
          skill_patterns = map (\<lambda>skill. map orth (make_doc skill)) ESCO_SKILLS;
          toks = doc_tokens d;
          matches = PhraseMatcher skill_patterns toks
      in \<lparr>text_clean = doc_text d,
          skills = set (map (\<lambda>(start, end'). lower (slice_text toks start end')) matches),
          roles = map orth (filter (\<lambda>t. lower (orth t) \<in>
                     set [''developer'', ''engineer'', ''analyst'']) toks),
          experience_text = [doc_text d]\<rparr>)"

text \<open>The vocabulary used when the skills file is missing.\<close>

definition mock_ESCO_SKILLS :: "string list" where
  "mock_ESCO_SKILLS =
     [''python'', ''django'', ''flask'', ''javascript'', ''developer'', ''engineer'']"

text \<open>The vocabulary read from the file: the column, lower-cased.\<close>

definition load_ESCO_SKILLS :: "string list \<Rightarrow> string list" where
  "load_ESCO_SKILLS skill_name = map lower skill_name"

subsection \<open>Inputs for worked examples\<close>

text \<open>
  A tokenizer for texts of words separated by spaces. A word followed by a space is a
  token with that space as its trailing whitespace; a space that follows no word is a
  token of its own.
\<close>

definition word :: "string \<Rightarrow> token" where
  "word s = \<lparr>orth = s, whitespace = '' '', tok_lemma = s, tok_tag = ''''\<rparr>"

definition glued :: "string \<Rightarrow> token" where
  "glued s = \<lparr>orth = s, whitespace = '''', tok_lemma = s, tok_tag = ''''\<rparr>"

fun tokenize_from :: "string \<Rightarrow> string \<Rightarrow> token list" where
  "tokenize_from acc [] = (if acc = [] then [] else [glued acc])"
| "tokenize_from acc (c # cs) =
     (if c = CHR '' '' then (if acc = [] then glued '' '' else word acc) # tokenize_from [] cs
      else tokenize_from (acc @ [c]) cs)"

definition space_tokenizer :: "string \<Rightarrow> token list" where
  "space_tokenizer s = tokenize_from [] s"

text \<open>A pipeline that tokenizes at spaces and recognises no entity.\<close>

definition plain_nlp :: "string \<Rightarrow> doc" where
  "plain_nlp s = map Tok (space_tokenizer s)"

text \<open>
  The text \<open>process_all_resumes\<close> feeds to \<open>extract_entities\<close>, and its document with
  the two entities the module's closing comment names: the person and the year.
\<close>

definition resume_text :: string where
  "resume_text =
     ''Experienced Python Developer with 5 years experience in Django and Flask. '' @
     ''My name is Alex Johnson, and I graduated in 2015.''"

definition resume_doc :: doc where
  "resume_doc =
     map (Tok \<circ> word) [''Experienced'', ''Python'', ''Developer'', ''with'', ''5'', ''years'',
        ''experience'', ''in'', ''Django'', ''and''] @
     [Tok (glued ''Flask''), Tok (word ''.'')] @
     map (Tok \<circ> word) [''My'', ''name'', ''is''] @
     [Ent ''PERSON'' (word ''Alex'') [glued ''Johnson''], Tok (word '','')] @
     map (Tok \<circ> word) [''and'', ''I'', ''graduated'', ''in''] @
     [Ent ''DATE'' (glued ''2015'') [], Tok (glued ''.'')]"

definition resume_nlp :: "string \<Rightarrow> doc" where
  "resume_nlp s = (if s = resume_text then resume_doc else plain_nlp s)"

section \<open>The knowledge graph (pipelines/2\_kg\_builder.py)\<close>

text \<open>
  Candidate nodes carry \<open>id\<close> and \<open>clean_text\<close>, job nodes \<open>id\<close> and \<open>title\<close>; skill
  nodes are merged by name, so a \<open>HAS_SKILL\<close> or \<open>REQUIRES_SKILL\<close> relationship is
  given by the skill's name. The order of the node lists is the order in which the
  store produces its rows; the store promises none.
\<close>

record candidate_node =
  cand_id :: string
  clean_text :: string
  HAS_SKILL :: "string list"

record job_node =
  job_id :: string
  title :: string
  REQUIRES_SKILL :: "string list"

record graph =
  Candidate :: "candidate_node list"
  Job :: "job_node list"

section \<open>Retrieval and rationale (pipelines/3\_rag\_service.py)\<close>

text \<open>The store when a query reaches it: unreachable, or serving a graph.\<close>

datatype neo4j = Unreachable | Serving graph

datatype neo4j_error = ServiceUnavailable | ClientError

text \<open>
  \<open>__init__\<close> sets \<open>initialized\<close> and \<open>driver\<close> together; \<open>driver\<close> is \<open>None\<close>
  exactly when \<open>initialized\<close> is false, and is not read then.
\<close>

record RAGService =
  initialized :: bool
  driver :: neo4j

text \<open>
  A result row is \<open>dict(record)\<close> with the three keys the query returns;
  \<open>generate_rationale\<close> adds the key \<open>rationale\<close> (\<open>None\<close>: the key is absent).
  Scores are floats in the store; the model computes with real numbers.
\<close>

record retrieved =
  candidate_id :: string
  context_chunk :: string
  hybrid_score :: real
  rationale :: "string option"

text \<open>
  \<^verbatim>\<open>
  MATCH (j:Job {id: 'target_job'})-[:REQUIRES_SKILL]->(rs:Skill)
  MATCH (c:Candidate)-[:HAS_SKILL]->(rs)
  WITH DISTINCT c
  RETURN c.id AS candidate_id, c.clean_text AS context_chunk,
         (0.8 + rand() * 0.1) AS hybrid_score
  ORDER BY hybrid_score DESC
  LIMIT $k
  \<close>
  \<open>rand\<close> gives the draw of \<open>rand()\<close> for each row by the row's position. Rows of equal
  score stay in the order the store produced them.
\<close>

definition required_skills :: "graph \<Rightarrow> string list" where
  "required_skills g =
     concat (map REQUIRES_SKILL (filter (\<lambda>j. job_id j = ''target_job'') (Job g)))"

definition MATCH_DISTINCT :: "graph \<Rightarrow> candidate_node list" where
  "MATCH_DISTINCT g =
     filter (\<lambda>c. list_ex (\<lambda>rs. rs \<in> set (HAS_SKILL c)) (required_skills g)) (Candidate g)"

definition RETURN_rows :: "(nat \<Rightarrow> real) \<Rightarrow> candidate_node list \<Rightarrow> retrieved list" where
  "RETURN_rows rand cs =
     map (\<lambda>(i, c). \<lparr>candidate_id = cand_id c, context_chunk = clean_text c,
                     hybrid_score = 8 / 10 + rand i * (1 / 10), rationale = None\<rparr>)
         (enumerate 0 cs)"

definition ORDER_BY_hybrid_score_DESC :: "retrieved list \<Rightarrow> retrieved list" where
  "ORDER_BY_hybrid_score_DESC rows = sort_key (\<lambda>r. - hybrid_score r) rows"

definition cypher_query :: "graph \<Rightarrow> (nat \<Rightarrow> real) \<Rightarrow> nat \<Rightarrow> retrieved list" where
  "cypher_query g rand k =
     take k (ORDER_BY_hybrid_score_DESC (RETURN_rows rand (MATCH_DISTINCT g)))"

text \<open>
  \<open>session.run(cypher_query, k=top_k)\<close> and the reading of its records. It raises when
  the store cannot be reached, and when \<open>$k\<close> is negative, which \<open>LIMIT\<close> rejects.
\<close>

fun session_run :: "neo4j \<Rightarrow> (nat \<Rightarrow> real) \<Rightarrow> int \<Rightarrow> neo4j_error + retrieved list" where
  "session_run Unreachable rand k = Inl ServiceUnavailable"
| "session_run (Serving g) rand k =
     (if k < 0 then Inl ClientError else Inr (cypher_query g rand (nat k)))"

text \<open>
  \<^verbatim>\<open>
  def hybrid_candidate_search(self, query: str, top_k: int = 5) -> List[Dict]:
      if not self.initialized: return []
      query_vector = self.embedding_model.encode(query).tolist()
      ...
      with self.driver.session(database=KG_DATABASE) as session:
          try:
              results = session.run(cypher_query, k=top_k)
              return [dict(record) for record in results]
          except Exception as e:
              print(f"Error executing Neo4j search: {e}")
              return []
  \<close>
  The query vector is computed and not used; neither it nor \<open>query\<close> reaches the store.
\<close>

definition hybrid_candidate_search ::
  "RAGService \<Rightarrow> (nat \<Rightarrow> real) \<Rightarrow> string \<Rightarrow> int \<Rightarrow> retrieved list" where
  "hybrid_candidate_search self rand query top_k =
     (if \<not> initialized self then []
      else case session_run (driver self) rand top_k of
             Inr results \<Rightarrow> results
           | Inl e \<Rightarrow> [])"

text \<open>The call with \<open>top_k\<close> left at its default.\<close>

definition hybrid_candidate_search_default ::
  "RAGService \<Rightarrow> (nat \<Rightarrow> real) \<Rightarrow> string \<Rightarrow> retrieved list" where
  "hybrid_candidate_search_default self rand query = hybrid_candidate_search self rand query 5"

subsection \<open>generate\_rationale\<close>

definition newline :: string where
  "newline = [CHR 0x0A]"

definition context_of :: "retrieved \<Rightarrow> string" where
  "context_of candidate =
     ''Candidate ID: '' @ candidate_id candidate @ newline @ ''---'' @ newline @
     ''Profile Context: '' @ context_chunk candidate @ newline @ ''---''"

definition prompt_content :: "string \<Rightarrow> retrieved \<Rightarrow> string" where
  "prompt_content job_query candidate =
     ''Job Query: '' @ job_query @ newline @ ''Candidate Context:'' @ newline @
     context_of candidate @ newline @ newline @
     ''Based ONLY on the context, provide a detailed rationale why this candidate '' @
     ''is a good fit, focusing on skills and experience.''"

record payload =
  systemInstruction :: string
  contents :: string

definition make_payload :: "string \<Rightarrow> retrieved \<Rightarrow> payload" where
  "make_payload job_query candidate =
     \<lparr>systemInstruction = LLM_SYSTEM_PROMPT, contents = prompt_content job_query candidate\<rparr>"

text \<open>
  The body of the \<open>try\<close> block is the generation call: from the payload and the candidate
  it gives the rationale, or raises an exception, kept as the exception's message. The
  handler turns the exception into the rationale
  \<open>f"Error generating rationale (API call failed): {e}"\<close>, and the rationale is stored
  in the candidate.
\<close>

type_synonym generation = "payload \<Rightarrow> retrieved \<Rightarrow> string + string"

definition rationale_of :: "string + string \<Rightarrow> string" where
  "rationale_of outcome =
     (case outcome of
        Inr generated \<Rightarrow> generated
      | Inl e \<Rightarrow> ''Error generating rationale (API call failed): '' @ e)"

definition generate_rationale_with ::
  "generation \<Rightarrow> retrieved list \<Rightarrow> string \<Rightarrow> retrieved list" where
  "generate_rationale_with llm retrieved_candidates job_query =
     map (\<lambda>candidate. candidate\<lparr>rationale :=
            Some (rationale_of (llm (make_payload job_query candidate) candidate))\<rparr>)
         retrieved_candidates"

text \<open>The generation call as the file has it: the mock rationale, built from the id.\<close>

definition mock_rationale :: "string \<Rightarrow> string" where
  "mock_rationale cid =
     ''Candidate '' @ cid @
     '' is a strong match due to confirmed proficiency in both Django and Flask, '' @
     ''which are key Python web frameworks required by the role. '' @
     ''The resume indicates multiple years of '' @
     ''developer experience, directly addressing the seniority requirement. '' @
     ''The match is solely based on '' @
     ''technical qualifications and professional history.''"

definition mock_llm_call :: generation where
  "mock_llm_call p candidate = Inr (mock_rationale (candidate_id candidate))"

definition generate_rationale :: "retrieved list \<Rightarrow> string \<Rightarrow> retrieved list" where
  "generate_rationale retrieved_candidates job_query =
     generate_rationale_with mock_llm_call retrieved_candidates job_query"

subsection \<open>Graphs, services and rows for worked examples\<close>

text \<open>
  The coverage of the specification, \<open>|matchedSkills| / |requiredSkills|\<close> and 0 when no
  skill is required. The code computes no coverage; this definition follows the
  specification's words and serves only to compare.
\<close>

definition spec_coverage :: "graph \<Rightarrow> candidate_node \<Rightarrow> real" where
  "spec_coverage g c =
     (let required = remdups (required_skills g)
      in if required = [] then 0
         else real (length (filter (\<lambda>rs. rs \<in> set (HAS_SKILL c)) required)) /
              real (length required))"

text \<open>Every call of \<open>rand()\<close> gives the same draw.\<close>

definition fixed_draw :: "real \<Rightarrow> nat \<Rightarrow> real" where
  "fixed_draw x i = x"

text \<open>The job node and its two required skills, as \<open>load_job_data\<close> writes them.\<close>

definition target_job :: job_node where
  "target_job =
     \<lparr>job_id = ''target_job'', title = ''Senior Python Developer'',
      REQUIRES_SKILL = [''python'', ''django'']\<rparr>"

definition half_candidate :: candidate_node where
  "half_candidate =
     \<lparr>cand_id = ''CAND_0000'', clean_text = ''python developer'', HAS_SKILL = [''python'']\<rparr>"

definition full_candidate :: candidate_node where
  "full_candidate =
     \<lparr>cand_id = ''CAND_0000'', clean_text = ''python and django engineer'',
      HAS_SKILL = [''python'', ''django'']\<rparr>"

definition half_graph :: graph where
  "half_graph = \<lparr>Candidate = [half_candidate], Job = [target_job]\<rparr>"

definition full_graph :: graph where
  "full_graph = \<lparr>Candidate = [full_candidate], Job = [target_job]\<rparr>"

definition candidate_2 :: candidate_node where
  "candidate_2 =
     \<lparr>cand_id = ''CAND_0002'', clean_text = ''python and django developer'',
      HAS_SKILL = [''python'', ''django'']\<rparr>"

definition candidate_1 :: candidate_node where
  "candidate_1 =
     \<lparr>cand_id = ''CAND_0001'', clean_text = ''python and django developer'',
      HAS_SKILL = [''python'', ''django'']\<rparr>"

definition tie_graph :: graph where
  "tie_graph = \<lparr>Candidate = [candidate_2, candidate_1], Job = [target_job]\<rparr>"

text \<open>A graph in which no candidate has a required skill.\<close>

definition no_match_graph :: graph where
  "no_match_graph =
     \<lparr>Candidate = [\<lparr>cand_id = ''CAND_0003'', clean_text = ''cobol developer'',
                     HAS_SKILL = [''cobol'']\<rparr>],
      Job = [target_job]\<rparr>"

text \<open>A graph whose job requires no skill.\<close>

definition no_requirement_graph :: graph where
  "no_requirement_graph =
     \<lparr>Candidate = [full_candidate],
      Job = [\<lparr>job_id = ''target_job'', title = ''Senior Python Developer'',
               REQUIRES_SKILL = []\<rparr>]\<rparr>"

definition service :: "graph \<Rightarrow> RAGService" where
  "service g = \<lparr>initialized = True, driver = Serving g\<rparr>"

text \<open>A service whose store went away after start-up, and one that failed to start.\<close>

definition down_service :: RAGService where
  "down_service = \<lparr>initialized = True, driver = Unreachable\<rparr>"

definition failed_service :: RAGService where
  "failed_service = \<lparr>initialized = False, driver = Unreachable\<rparr>"

text \<open>A generation call that times out for one candidate and is the mock for the others.\<close>

definition flaky_llm_call :: generation where
  "flaky_llm_call p candidate =
     (if candidate_id candidate = ''CAND_0001'' then Inl ''timed out''
      else mock_llm_call p candidate)"

definition row_1 :: retrieved where
  "row_1 = \<lparr>candidate_id = ''CAND_0001'', context_chunk = ''python and django developer'',
            hybrid_score = 88 / 100, rationale = None\<rparr>"

definition row_2 :: retrieved where
  "row_2 = \<lparr>candidate_id = ''CAND_0002'', context_chunk = ''flask engineer'',
            hybrid_score = 83 / 100, rationale = None\<rparr>"

definition row_1' :: retrieved where
  "row_1' = \<lparr>candidate_id = ''CAND_0001'', context_chunk = ''javascript analyst'',
             hybrid_score = 81 / 100, rationale = None\<rparr>"

section \<open>Properties of the guardrail and the extractor\<close>

lemma tokens_text_append: "tokens_text (xs @ ys) = tokens_text xs @ tokens_text ys"
  by (simp add: tokens_text_def)

lemma span_text_whitespace: "span_text t ts @ span_whitespace t ts = tokens_text (t # ts)"
  by (induction ts arbitrary: t) (simp_all add: tokens_text_def text_with_ws_def)

lemma merge_text_with_ws: "text_with_ws (merge l g t ts) = tokens_text (t # ts)"
  using span_text_whitespace [of t ts] by (simp add: merge_def text_with_ws_def)

text \<open>Merging an entity leaves the text of its tokens as it was.\<close>

lemma guard_piece_text:
  "tokens_text (piece_tokens (guard_piece p)) = tokens_text (piece_tokens p)"
proof (cases p)
  case (Tok t)
  then show ?thesis by simp
next
  case (Ent l t ts)
  have "tokens_text [merge ''[MASKED_ENTITY]'' ''XX'' t ts] = tokens_text (t # ts)"
    using merge_text_with_ws [of "''[MASKED_ENTITY]''" "''XX''" t ts]
    by (simp add: tokens_text_def)
  with Ent show ?thesis by simp
qed

lemma apply_guardrails_text: "doc_text (apply_guardrails d) = doc_text d"
proof (induction d)
  case Nil
  then show ?case by (simp add: apply_guardrails_def)
next
  case (Cons p d)
  then show ?case
    using guard_piece_text [of p]
    by (simp add: apply_guardrails_def doc_text_def doc_tokens_def tokens_text_append)
qed

lemma merge_single: "merge l g (merge l g t ts) [] = merge l g t ts"
  by (simp add: merge_def)

lemma guard_piece_idem: "guard_piece (guard_piece p) = guard_piece p"
  by (cases p) (simp_all add: merge_single)

lemma apply_guardrails_idem: "apply_guardrails (apply_guardrails d) = apply_guardrails d"
  by (simp add: apply_guardrails_def guard_piece_idem)

lemma text_clean_is_doc_text:
  "text_clean (extract_entities nlp make_doc V txt) = doc_text (nlp txt)"
  by (simp add: extract_entities_def Let_def apply_guardrails_text)

lemma resume_doc_text: "doc_text resume_doc = resume_text"
  by (simp add: resume_doc_def resume_text_def doc_text_def doc_tokens_def tokens_text_def
      text_with_ws_def word_def glued_def)

text \<open>
  Claim C1 (masking completeness) does not hold of the code. On the text of
  \<open>process_all_resumes\<close>, with the person and the year recognised, the guardrail merges
  the person's two tokens into one token whose lemma is the placeholder, and the token's
  text is still the name: \<open>text_clean\<close>, which is what gets stored, is the raw input, and
  both the name and the year occur in it.
\<close>

theorem clean_text_keeps_masked_spans:
  "text_clean (extract_entities resume_nlp space_tokenizer mock_ESCO_SKILLS resume_text) =
     resume_text \<and>
   piece_tokens (apply_guardrails resume_doc ! 15) =
     [\<lparr>orth = ''Alex Johnson'', whitespace = '''', tok_lemma = ''[MASKED_ENTITY]'',
       tok_tag = ''XX''\<rparr>] \<and>
   sublist ''Alex Johnson''
     (text_clean (extract_entities resume_nlp space_tokenizer mock_ESCO_SKILLS resume_text)) \<and>
   sublist ''2015''
     (text_clean (extract_entities resume_nlp space_tokenizer mock_ESCO_SKILLS resume_text))"
proof -
  have a: "text_clean (extract_entities resume_nlp space_tokenizer mock_ESCO_SKILLS resume_text)
      = resume_text"
    by (simp add: text_clean_is_doc_text resume_nlp_def resume_doc_text)
  have b: "sublist ''Alex Johnson'' resume_text"
    by (simp add: resume_text_def sublist_Cons_right)
  have c: "sublist ''2015'' resume_text"
    by (simp add: resume_text_def sublist_Cons_right)
  have d: "piece_tokens (apply_guardrails resume_doc ! 15) =
     [\<lparr>orth = ''Alex Johnson'', whitespace = '''', tok_lemma = ''[MASKED_ENTITY]'',
       tok_tag = ''XX''\<rparr>]"
    by (simp add: resume_doc_def apply_guardrails_def MASKED_ENTITIES_def merge_def
        text_with_ws_def word_def glued_def)
  show ?thesis using a b c d by simp
qed

text \<open>
  Claim C2 (a skill is recorded if and only if its surface form occurs case-insensitively)
  does not hold of the code. The vocabulary is lower-cased and the matcher compares the
  verbatim text of tokens, so in \<open>Python Developer\<close> no skill is found although
  \<open>python\<close> occurs in the case-folded text; the same words in lower case give both skills.
\<close>

theorem skills_matched_verbatim:
  "skills (extract_entities plain_nlp space_tokenizer mock_ESCO_SKILLS ''Python Developer'')
     = {} \<and>
   sublist ''python'' (lower (text_clean
      (extract_entities plain_nlp space_tokenizer mock_ESCO_SKILLS ''Python Developer''))) \<and>
   skills (extract_entities plain_nlp space_tokenizer mock_ESCO_SKILLS ''python developer'')
     = {''python'', ''developer''}"
  by code_simp

text \<open>
  Claim C6 (masking idempotence). Applying the guardrail to its own output changes
  nothing: an entity already merged is one token, and merging it again gives the same
  token. On texts, where the pipeline's document spells the text it was given, the clean
  text of the clean text is the clean text.
\<close>

theorem masking_idempotent:
  "apply_guardrails (apply_guardrails d) = apply_guardrails d \<and>
   (doc_text (nlp txt) = txt \<longrightarrow>
      text_clean (extract_entities nlp make_doc V
         (text_clean (extract_entities nlp make_doc V txt))) =
      text_clean (extract_entities nlp make_doc V txt))"
  by (simp add: apply_guardrails_idem text_clean_is_doc_text)

theorem masking_idempotent_witness:
  "apply_guardrails (apply_guardrails resume_doc) = apply_guardrails resume_doc \<and>
   doc_text (resume_nlp resume_text) = resume_text \<and>
   text_clean (extract_entities resume_nlp space_tokenizer mock_ESCO_SKILLS
      (text_clean (extract_entities resume_nlp space_tokenizer mock_ESCO_SKILLS resume_text))) =
   text_clean (extract_entities resume_nlp space_tokenizer mock_ESCO_SKILLS resume_text)"
proof -
  have h: "doc_text (resume_nlp resume_text) = resume_text"
    by (simp add: resume_nlp_def resume_doc_text)
  show ?thesis
    using h masking_idempotent
      [of resume_doc resume_nlp resume_text space_tokenizer mock_ESCO_SKILLS]
    by blast
qed

section \<open>Properties of retrieval\<close>

lemma search_rows:
  "r \<in> set (hybrid_candidate_search self rand query top_k) \<Longrightarrow>
   \<exists>g. driver self = Serving g \<and> r \<in> set (RETURN_rows rand (MATCH_DISTINCT g))"
  by (cases "driver self")
    (auto simp: hybrid_candidate_search_def cypher_query_def ORDER_BY_hybrid_score_DESC_def
      split: if_splits dest: in_set_takeD)

lemma RETURN_rows_row:
  "r \<in> set (RETURN_rows rand cs) \<Longrightarrow>
   \<exists>c \<in> set cs. \<exists>i. candidate_id r = cand_id c \<and> context_chunk r = clean_text c \<and>
      hybrid_score r = 8 / 10 + rand i * (1 / 10)"
proof -
  assume "r \<in> set (RETURN_rows rand cs)"
  then obtain i where i: "i < length cs"
    and r: "r = \<lparr>candidate_id = cand_id (cs ! i), context_chunk = clean_text (cs ! i),
                   hybrid_score = 8 / 10 + rand i * (1 / 10), rationale = None\<rparr>"
    by (auto simp: RETURN_rows_def in_set_enumerate_eq)
  from i have "cs ! i \<in> set cs" by simp
  with r show ?thesis by auto
qed

lemma MATCH_DISTINCT_linked:
  "c \<in> set (MATCH_DISTINCT g) \<Longrightarrow>
   c \<in> set (Candidate g) \<and> set (HAS_SKILL c) \<inter> set (required_skills g) \<noteq> {}"
  by (auto simp: MATCH_DISTINCT_def list_ex_iff)

lemma MATCH_DISTINCT_none: "required_skills g = [] \<Longrightarrow> MATCH_DISTINCT g = []"
  by (simp add: MATCH_DISTINCT_def)

lemma ORDER_BY_sorted:
  "sorted_wrt (\<lambda>a b. hybrid_score b \<le> hybrid_score a) (ORDER_BY_hybrid_score_DESC rows)"
proof -
  have "sorted (map (\<lambda>r. - hybrid_score r) (sort_key (\<lambda>r. - hybrid_score r) rows))"
    by (rule sorted_sort_key)
  then show ?thesis
    by (simp add: sorted_map ORDER_BY_hybrid_score_DESC_def)
qed

lemma cypher_query_sorted:
  "sorted_wrt (\<lambda>a b. hybrid_score b \<le> hybrid_score a) (cypher_query g rand k)"
  unfolding cypher_query_def by (rule sorted_wrt_take) (rule ORDER_BY_sorted)

lemma search_cases:
  "hybrid_candidate_search self rand query top_k = [] \<or>
   (\<exists>g. initialized self \<and> driver self = Serving g \<and> 0 \<le> top_k \<and>
      hybrid_candidate_search self rand query top_k = cypher_query g rand (nat top_k))"
  by (cases "driver self") (auto simp: hybrid_candidate_search_def)

text \<open>
  Claim C3, amended. Every row returned is a candidate node linked to at least one skill
  the job \<open>target_job\<close> requires, so that a job with no required skill gives no row; a row
  carries no coverage, and its score is 0.8 plus a tenth of a random draw: neither the
  coverage nor the similarity of the texts has a part in it.
\<close>

theorem search_score_is_mock:
  assumes "driver self = Serving g"
  shows "(required_skills g = [] \<longrightarrow> hybrid_candidate_search self rand query top_k = []) \<and>
    (\<forall>r \<in> set (hybrid_candidate_search self rand query top_k).
       \<exists>c \<in> set (Candidate g). \<exists>i.
         candidate_id r = cand_id c \<and> context_chunk r = clean_text c \<and>
         set (HAS_SKILL c) \<inter> set (required_skills g) \<noteq> {} \<and>
         hybrid_score r = 8 / 10 + rand i * (1 / 10))"
proof (intro conjI impI ballI)
  assume "required_skills g = []"
  then have "MATCH_DISTINCT g = []" by (rule MATCH_DISTINCT_none)
  with assms show "hybrid_candidate_search self rand query top_k = []"
    by (simp add: hybrid_candidate_search_def cypher_query_def RETURN_rows_def
        ORDER_BY_hybrid_score_DESC_def)
next
  fix r
  assume "r \<in> set (hybrid_candidate_search self rand query top_k)"
  then obtain g' where "driver self = Serving g'"
    and r: "r \<in> set (RETURN_rows rand (MATCH_DISTINCT g'))"
    using search_rows by blast
  with assms have "g' = g" by simp
  with r obtain c i where c: "c \<in> set (MATCH_DISTINCT g)"
    and f: "candidate_id r = cand_id c" "context_chunk r = clean_text c"
      "hybrid_score r = 8 / 10 + rand i * (1 / 10)"
    using RETURN_rows_row by blast
  from c have "c \<in> set (Candidate g)"
    and "set (HAS_SKILL c) \<inter> set (required_skills g) \<noteq> {}"
    using MATCH_DISTINCT_linked by blast+
  with f show "\<exists>c \<in> set (Candidate g). \<exists>i.
         candidate_id r = cand_id c \<and> context_chunk r = clean_text c \<and>
         set (HAS_SKILL c) \<inter> set (required_skills g) \<noteq> {} \<and>
         hybrid_score r = 8 / 10 + rand i * (1 / 10)"
    by blast
qed

lemma search_half_graph:
  "hybrid_candidate_search (service half_graph) (fixed_draw (1 / 2)) q 5 =
     [\<lparr>candidate_id = ''CAND_0000'', context_chunk = ''python developer'',
       hybrid_score = 17 / 20, rationale = None\<rparr>]"
  by (simp add: hybrid_candidate_search_def service_def cypher_query_def RETURN_rows_def
      ORDER_BY_hybrid_score_DESC_def MATCH_DISTINCT_def required_skills_def half_graph_def
      half_candidate_def target_job_def fixed_draw_def)

lemma search_full_graph:
  "hybrid_candidate_search (service full_graph) (fixed_draw (1 / 2)) q 5 =
     [\<lparr>candidate_id = ''CAND_0000'', context_chunk = ''python and django engineer'',
       hybrid_score = 17 / 20, rationale = None\<rparr>]"
  by (simp add: hybrid_candidate_search_def service_def cypher_query_def RETURN_rows_def
      ORDER_BY_hybrid_score_DESC_def MATCH_DISTINCT_def required_skills_def full_graph_def
      full_candidate_def target_job_def fixed_draw_def)

theorem search_score_is_mock_witness:
  "driver (service half_graph) = Serving half_graph \<and>
   hybrid_candidate_search (service half_graph) (fixed_draw (1 / 2))
     ''Senior Python Developer'' 5 \<noteq> [] \<and>
   (\<exists>c \<in> set (Candidate half_graph). \<exists>i.
       ''CAND_0000'' = cand_id c \<and> ''python developer'' = clean_text c \<and>
       set (HAS_SKILL c) \<inter> set (required_skills half_graph) \<noteq> {} \<and>
       (17 / 20 :: real) = 8 / 10 + fixed_draw (1 / 2) i * (1 / 10)) \<and>
   driver (service no_requirement_graph) = Serving no_requirement_graph \<and>
   required_skills no_requirement_graph = [] \<and>
   hybrid_candidate_search (service no_requirement_graph) (fixed_draw (1 / 2))
     ''Senior Python Developer'' 5 = []"
proof -
  have h: "driver (service half_graph) = Serving half_graph"
    by (simp add: service_def)
  have a: "hybrid_candidate_search (service half_graph) (fixed_draw (1 / 2))
       ''Senior Python Developer'' 5 \<noteq> [] \<and>
     (\<exists>c \<in> set (Candidate half_graph). \<exists>i.
       ''CAND_0000'' = cand_id c \<and> ''python developer'' = clean_text c \<and>
       set (HAS_SKILL c) \<inter> set (required_skills half_graph) \<noteq> {} \<and>
       (17 / 20 :: real) = 8 / 10 + fixed_draw (1 / 2) i * (1 / 10))"
    using search_score_is_mock [OF h, of "fixed_draw (1 / 2)" "''Senior Python Developer''" 5]
    by (simp add: search_half_graph)
  have h': "driver (service no_requirement_graph) = Serving no_requirement_graph"
    by (simp add: service_def)
  have n: "required_skills no_requirement_graph = []"
    by (simp add: required_skills_def no_requirement_graph_def)
  have b: "hybrid_candidate_search (service no_requirement_graph) (fixed_draw (1 / 2))
     ''Senior Python Developer'' 5 = []"
    using n search_score_is_mock [OF h', of "fixed_draw (1 / 2)" "''Senior Python Developer''" 5]
    by blast
  show ?thesis using h a h' n b by blast
qed

text \<open>
  A candidate with one of the two required skills and a candidate with both, with
  different texts and the same draw, get the same score.
\<close>

theorem score_ignores_coverage_counterexample:
  "spec_coverage half_graph half_candidate = 1 / 2 \<and>
   spec_coverage full_graph full_candidate = 1 \<and>
   map hybrid_score (hybrid_candidate_search (service half_graph) (fixed_draw (1 / 2))
       ''Senior Python Developer'' 5) = [17 / 20] \<and>
   map hybrid_score (hybrid_candidate_search (service full_graph) (fixed_draw (1 / 2))
       ''Senior Python Developer'' 5) = [17 / 20]"
proof -
  have a: "spec_coverage half_graph half_candidate = 1 / 2"
    by (simp add: spec_coverage_def required_skills_def half_graph_def half_candidate_def
        target_job_def)
  have b: "spec_coverage full_graph full_candidate = 1"
    by (simp add: spec_coverage_def required_skills_def full_graph_def full_candidate_def
        target_job_def)
  show ?thesis using a b by (simp add: search_half_graph search_full_graph)
qed

text \<open>
  Claim C4, amended. The rows are in descending order of score and there are at most
  \<open>top_k\<close> of them: they are the first \<open>top_k\<close> rows of the ranking. Nothing orders
  rows of equal score by coverage or by candidate id.
\<close>

theorem search_sorted_truncated:
  "sorted_wrt (\<lambda>a b. hybrid_score b \<le> hybrid_score a)
     (hybrid_candidate_search self rand query top_k) \<and>
   length (hybrid_candidate_search self rand query top_k) \<le> nat top_k \<and>
   (initialized self \<and> driver self = Serving g \<and> 0 \<le> top_k \<longrightarrow>
      hybrid_candidate_search self rand query top_k =
        take (nat top_k) (ORDER_BY_hybrid_score_DESC (RETURN_rows rand (MATCH_DISTINCT g))))"
proof (intro conjI impI)
  show "sorted_wrt (\<lambda>a b. hybrid_score b \<le> hybrid_score a)
     (hybrid_candidate_search self rand query top_k)"
    using search_cases [of self rand query top_k] cypher_query_sorted by auto
  show "length (hybrid_candidate_search self rand query top_k) \<le> nat top_k"
    using search_cases [of self rand query top_k] by (auto simp: cypher_query_def)
next
  assume "initialized self \<and> driver self = Serving g \<and> 0 \<le> top_k"
  then show "hybrid_candidate_search self rand query top_k =
        take (nat top_k) (ORDER_BY_hybrid_score_DESC (RETURN_rows rand (MATCH_DISTINCT g)))"
    by (simp add: hybrid_candidate_search_def cypher_query_def)
qed

lemma search_tie_graph:
  "hybrid_candidate_search (service tie_graph) (fixed_draw (1 / 2)) q 5 =
     [\<lparr>candidate_id = ''CAND_0002'', context_chunk = ''python and django developer'',
       hybrid_score = 17 / 20, rationale = None\<rparr>,
      \<lparr>candidate_id = ''CAND_0001'', context_chunk = ''python and django developer'',
       hybrid_score = 17 / 20, rationale = None\<rparr>]"
  by (simp add: hybrid_candidate_search_def service_def cypher_query_def RETURN_rows_def
      ORDER_BY_hybrid_score_DESC_def MATCH_DISTINCT_def required_skills_def tie_graph_def
      candidate_1_def candidate_2_def target_job_def fixed_draw_def)

theorem search_sorted_truncated_witness:
  "initialized (service tie_graph) \<and> driver (service tie_graph) = Serving tie_graph \<and>
   (0::int) \<le> 1 \<and>
   hybrid_candidate_search (service tie_graph) (fixed_draw (1 / 2)) ''Senior Python Developer'' 1 =
     take (nat 1) (ORDER_BY_hybrid_score_DESC
       (RETURN_rows (fixed_draw (1 / 2)) (MATCH_DISTINCT tie_graph))) \<and>
   length (hybrid_candidate_search (service tie_graph) (fixed_draw (1 / 2))
     ''Senior Python Developer'' 1) \<le> nat 1"
proof -
  have h: "initialized (service tie_graph) \<and> driver (service tie_graph) = Serving tie_graph \<and>
      (0::int) \<le> 1"
    by (simp add: service_def)
  show ?thesis
    using h search_sorted_truncated
      [of "service tie_graph" "fixed_draw (1 / 2)" "''Senior Python Developer''" 1 tie_graph]
    by blast
qed

text \<open>
  Two candidates with the same score and the same coverage come out in the order of the
  store's rows, here the higher candidate id first.
\<close>

theorem tie_order_counterexample:
  "map candidate_id (hybrid_candidate_search (service tie_graph) (fixed_draw (1 / 2))
       ''Senior Python Developer'' 5) = [''CAND_0002'', ''CAND_0001''] \<and>
   map hybrid_score (hybrid_candidate_search (service tie_graph) (fixed_draw (1 / 2))
       ''Senior Python Developer'' 5) = [17 / 20, 17 / 20] \<and>
   spec_coverage tie_graph candidate_2 = spec_coverage tie_graph candidate_1 \<and>
   ''CAND_0001'' < ''CAND_0002''"
proof -
  have a: "spec_coverage tie_graph candidate_2 = 1"
    by (simp add: spec_coverage_def required_skills_def tie_graph_def candidate_2_def
        target_job_def)
  have b: "spec_coverage tie_graph candidate_1 = 1"
    by (simp add: spec_coverage_def required_skills_def tie_graph_def candidate_1_def
        target_job_def)
  have c: "''CAND_0001'' < ''CAND_0002''"
    by simp
  show ?thesis using a b c by (simp add: search_tie_graph)
qed

text \<open>
  Claim C5, amended. The search takes the query and \<open>top_k\<close> (5 when left out) and no
  threshold. With every draw of \<open>rand()\<close> in \<open>[0, 1)\<close>, every score returned lies
  between 0.8 and 0.9, and so is at least 0.
\<close>

theorem search_score_range:
  assumes "\<forall>i. 0 \<le> rand i \<and> rand i < 1"
  shows "hybrid_candidate_search_default self rand query =
      hybrid_candidate_search self rand query 5 \<and>
    (\<forall>r \<in> set (hybrid_candidate_search self rand query top_k).
       0 \<le> hybrid_score r \<and> 8 / 10 \<le> hybrid_score r \<and> hybrid_score r \<le> 9 / 10)"
proof (intro conjI ballI)
  show "hybrid_candidate_search_default self rand query =
      hybrid_candidate_search self rand query 5"
    by (simp add: hybrid_candidate_search_default_def)
next
  fix r
  assume "r \<in> set (hybrid_candidate_search self rand query top_k)"
  then obtain i where s: "hybrid_score r = 8 / 10 + rand i * (1 / 10)"
    using search_rows RETURN_rows_row by blast
  from assms have "0 \<le> rand i" and "rand i < 1" by simp_all
  with s show "0 \<le> hybrid_score r" and "8 / 10 \<le> hybrid_score r"
    and "hybrid_score r \<le> 9 / 10"
    by simp_all
qed

theorem search_score_range_witness:
  "(\<forall>i. 0 \<le> fixed_draw (1 / 2) i \<and> fixed_draw (1 / 2) i < 1) \<and>
   hybrid_candidate_search (service half_graph) (fixed_draw (1 / 2)) ''Senior Python Developer'' 5
     \<noteq> [] \<and>
   (0::real) \<le> 17 / 20 \<and> (8 / 10 :: real) \<le> 17 / 20 \<and> (17 / 20 :: real) \<le> 9 / 10"
proof -
  have h: "\<forall>i. 0 \<le> fixed_draw (1 / 2) i \<and> fixed_draw (1 / 2) i < 1"
    by (simp add: fixed_draw_def)
  show ?thesis
    using h search_score_range
      [OF h, of "service half_graph" "''Senior Python Developer''" 5]
    by (simp add: search_half_graph)
qed

text \<open>A caller who wants no score under 0.95 has no way to say so, and gets a row scored 0.85.\<close>

theorem no_threshold_counterexample:
  "map hybrid_score (hybrid_candidate_search (service half_graph) (fixed_draw (1 / 2))
       ''Senior Python Developer'' 5) = [17 / 20] \<and>
   (17 / 20 :: real) < 95 / 100"
  by (simp add: search_half_graph)

text \<open>
  Claim C8, amended. When the service is not initialised, and when the query raises,
  the search returns the empty sequence: a retrieval failure reaches the caller as the
  value that also stands for no match.
\<close>

theorem search_failure_is_empty:
  "(\<not> initialized self \<longrightarrow> hybrid_candidate_search self rand query top_k = []) \<and>
   (session_run (driver self) rand top_k = Inl e \<longrightarrow>
      hybrid_candidate_search self rand query top_k = [])"
  by (simp add: hybrid_candidate_search_def)

theorem search_failure_is_empty_witness:
  "\<not> initialized failed_service \<and>
   hybrid_candidate_search failed_service (fixed_draw (1 / 2)) ''Senior Python Developer'' 5 = [] \<and>
   session_run (driver down_service) (fixed_draw (1 / 2)) 5 = Inl ServiceUnavailable \<and>
   hybrid_candidate_search down_service (fixed_draw (1 / 2)) ''Senior Python Developer'' 5 = []"
proof -
  have h1: "\<not> initialized failed_service"
    by (simp add: failed_service_def)
  have h2: "session_run (driver down_service) (fixed_draw (1 / 2)) 5 = Inl ServiceUnavailable"
    by (simp add: down_service_def)
  show ?thesis
    using h1 h2
      search_failure_is_empty
        [of failed_service "fixed_draw (1 / 2)" "''Senior Python Developer''" 5 ServiceUnavailable]
      search_failure_is_empty
        [of down_service "fixed_draw (1 / 2)" "''Senior Python Developer''" 5 ServiceUnavailable]
    by blast
qed

text \<open>
  With the store unreachable the query raises, with no matching candidate it gives no row,
  and the search returns the same value in both cases.
\<close>

theorem failure_looks_like_no_match_counterexample:
  "session_run (driver down_service) (fixed_draw (1 / 2)) 5 = Inl ServiceUnavailable \<and>
   session_run (driver (service no_match_graph)) (fixed_draw (1 / 2)) 5 = Inr [] \<and>
   hybrid_candidate_search down_service (fixed_draw (1 / 2)) ''Senior Python Developer'' 5 =
   hybrid_candidate_search (service no_match_graph) (fixed_draw (1 / 2))
     ''Senior Python Developer'' 5"
  by (simp add: hybrid_candidate_search_def down_service_def service_def cypher_query_def
      RETURN_rows_def ORDER_BY_hybrid_score_DESC_def MATCH_DISTINCT_def required_skills_def
      no_match_graph_def target_job_def)

section \<open>Properties of rationale generation\<close>

lemma generate_rationale_with_length:
  "length (generate_rationale_with llm cs q) = length cs"
  by (simp add: generate_rationale_with_def)

lemma generate_rationale_with_nth:
  "j < length cs \<Longrightarrow>
   generate_rationale_with llm cs q ! j =
     (cs ! j)\<lparr>rationale := Some (rationale_of (llm (make_payload q (cs ! j)) (cs ! j)))\<rparr>"
  by (simp add: generate_rationale_with_def)

lemma generate_rationale_mock:
  "map rationale (generate_rationale cs q) =
     map (\<lambda>i. Some (mock_rationale i)) (map candidate_id cs)"
  by (simp add: generate_rationale_def generate_rationale_with_def mock_llm_call_def
      rationale_of_def)

text \<open>
  Claim C7 (generation-failure isolation). When the generation call raises for the
  candidate at a position, the result still has every candidate in its place; that
  candidate is unchanged but for its rationale, which is the failure message followed by
  the exception's message and is not empty; and every other candidate comes out as it
  does under any generation call that behaves the same on the other candidates.
\<close>

theorem generation_failure_isolated:
  assumes "i < length cs"
    and "llm (make_payload q (cs ! i)) (cs ! i) = Inl e"
    and "\<forall>j < length cs. j \<noteq> i \<longrightarrow>
           llm' (make_payload q (cs ! j)) (cs ! j) = llm (make_payload q (cs ! j)) (cs ! j)"
  shows "length (generate_rationale_with llm cs q) = length cs \<and>
    generate_rationale_with llm cs q ! i =
      (cs ! i)\<lparr>rationale := Some (''Error generating rationale (API call failed): '' @ e)\<rparr> \<and>
    rationale (generate_rationale_with llm cs q ! i) \<noteq> None \<and>
    rationale (generate_rationale_with llm cs q ! i) \<noteq> Some [] \<and>
    (\<forall>j < length cs. j \<noteq> i \<longrightarrow>
       generate_rationale_with llm cs q ! j = generate_rationale_with llm' cs q ! j)"
proof -
  have at_i: "generate_rationale_with llm cs q ! i =
      (cs ! i)\<lparr>rationale := Some (''Error generating rationale (API call failed): '' @ e)\<rparr>"
    using assms(1,2) by (simp add: generate_rationale_with_nth rationale_of_def)
  have others: "\<forall>j < length cs. j \<noteq> i \<longrightarrow>
       generate_rationale_with llm cs q ! j = generate_rationale_with llm' cs q ! j"
    using assms(3) by (simp add: generate_rationale_with_nth)
  from at_i have "rationale (generate_rationale_with llm cs q ! i) \<noteq> None"
    and "rationale (generate_rationale_with llm cs q ! i) \<noteq> Some []"
    by simp_all
  with at_i others show ?thesis
    by (simp add: generate_rationale_with_length)
qed

theorem generation_failure_isolated_witness:
  "(1::nat) < length [row_2, row_1] \<and>
   flaky_llm_call (make_payload ''Senior Python Developer'' row_1) row_1 = Inl ''timed out'' \<and>
   mock_llm_call (make_payload ''Senior Python Developer'' row_2) row_2 =
     flaky_llm_call (make_payload ''Senior Python Developer'' row_2) row_2 \<and>
   length (generate_rationale_with flaky_llm_call [row_2, row_1] ''Senior Python Developer'') = 2 \<and>
   generate_rationale_with flaky_llm_call [row_2, row_1] ''Senior Python Developer'' ! 1 =
     row_1\<lparr>rationale := Some ''Error generating rationale (API call failed): timed out''\<rparr> \<and>
   generate_rationale_with flaky_llm_call [row_2, row_1] ''Senior Python Developer'' ! 0 =
     generate_rationale_with mock_llm_call [row_2, row_1] ''Senior Python Developer'' ! 0"
proof -
  have h1: "(1::nat) < length [row_2, row_1]"
    by simp
  have h2: "flaky_llm_call (make_payload ''Senior Python Developer'' ([row_2, row_1] ! 1))
      ([row_2, row_1] ! 1) = Inl ''timed out''"
    by (simp add: flaky_llm_call_def row_1_def)
  have h3: "mock_llm_call (make_payload ''Senior Python Developer'' row_2) row_2 =
      flaky_llm_call (make_payload ''Senior Python Developer'' row_2) row_2"
    by (simp add: flaky_llm_call_def row_2_def)
  have h4: "\<forall>j < length [row_2, row_1]. j \<noteq> 1 \<longrightarrow>
      mock_llm_call (make_payload ''Senior Python Developer'' ([row_2, row_1] ! j))
        ([row_2, row_1] ! j) =
      flaky_llm_call (make_payload ''Senior Python Developer'' ([row_2, row_1] ! j))
        ([row_2, row_1] ! j)"
    using h3 by (simp add: less_Suc_eq)
  have c: "length (generate_rationale_with flaky_llm_call [row_2, row_1]
        ''Senior Python Developer'') = length [row_2, row_1] \<and>
      generate_rationale_with flaky_llm_call [row_2, row_1] ''Senior Python Developer'' ! 1 =
        ([row_2, row_1] ! 1)\<lparr>rationale :=
           Some (''Error generating rationale (API call failed): '' @ ''timed out'')\<rparr> \<and>
      (\<forall>j < length [row_2, row_1]. j \<noteq> 1 \<longrightarrow>
         generate_rationale_with flaky_llm_call [row_2, row_1] ''Senior Python Developer'' ! j =
         generate_rationale_with mock_llm_call [row_2, row_1] ''Senior Python Developer'' ! j)"
    using h1 h2 h4
      generation_failure_isolated
        [where i = 1 and cs = "[row_2, row_1]" and llm = flaky_llm_call
           and q = "''Senior Python Developer''" and e = "''timed out''"
           and llm' = mock_llm_call]
    by blast
  from c have "generate_rationale_with flaky_llm_call [row_2, row_1]
        ''Senior Python Developer'' ! 0 =
      generate_rationale_with mock_llm_call [row_2, row_1] ''Senior Python Developer'' ! 0"
    by simp
  with c h1 h2 h3 show ?thesis by simp
qed

text \<open>
  Claim C9 (frame of rationale generation). The result has the length and the order of
  the input, and each element has the candidate id, the context chunk and the score of
  the element it comes from; only the rationale is written. This holds of the generation
  step under any generation call, and so of \<open>generate_rationale\<close>.
\<close>

theorem rationale_keeps_other_fields:
  "length (generate_rationale_with llm cs q) = length cs \<and>
   map candidate_id (generate_rationale_with llm cs q) = map candidate_id cs \<and>
   map context_chunk (generate_rationale_with llm cs q) = map context_chunk cs \<and>
   map hybrid_score (generate_rationale_with llm cs q) = map hybrid_score cs \<and>
   length (generate_rationale cs q) = length cs \<and>
   map candidate_id (generate_rationale cs q) = map candidate_id cs \<and>
   map context_chunk (generate_rationale cs q) = map context_chunk cs \<and>
   map hybrid_score (generate_rationale cs q) = map hybrid_score cs"
  by (simp add: generate_rationale_def generate_rationale_with_def)

text \<open>
  Claim C10 (the rationale depends on the candidate id only). Two sequences of results
  with the same candidate ids get the same rationales, whatever their context chunks,
  their scores and the job queries are.
\<close>

theorem rationale_depends_on_id_only:
  "map candidate_id cs = map candidate_id cs' \<Longrightarrow>
   map rationale (generate_rationale cs q) = map rationale (generate_rationale cs' q')"
  by (simp only: generate_rationale_mock)

theorem rationale_depends_on_id_only_witness:
  "map candidate_id [row_1] = map candidate_id [row_1'] \<and>
   context_chunk row_1 \<noteq> context_chunk row_1' \<and>
   hybrid_score row_1 \<noteq> hybrid_score row_1' \<and>
   map rationale (generate_rationale [row_1] ''Senior Python Developer'') =
   map rationale (generate_rationale [row_1'] ''Junior analyst'')"
proof -
  have h: "map candidate_id [row_1] = map candidate_id [row_1']"
    by (simp add: row_1_def row_1'_def)
  have d: "context_chunk row_1 \<noteq> context_chunk row_1' \<and>
      hybrid_score row_1 \<noteq> hybrid_score row_1'"
    by (simp add: row_1_def row_1'_def)
  show ?thesis
    using h d rationale_depends_on_id_only
      [OF h, of "''Senior Python Developer''" "''Junior analyst''"]
    by blast
qed

end
